theory Spec2Isabelle
  imports
    Complex_Main
    "HOL-Library.Word"
    "HOL-Library.Monad_Syntax"
begin

unbundle bit_operations_syntax

section \<open>JavaScript strings\<close>

text \<open>
  A JavaScript string is a sequence of UTF-16 code units. \<open>trim\<close> and \<open>substring\<close>
  work on code units, so the model keeps them: a string is a list of 16-bit words.
  The literals of the source are ASCII, except the placeholder of the Tensor Index card
  (U+2014, one code unit).
\<close>

type_synonym jsstring = "16 word list"

definition ascii :: "string \<Rightarrow> jsstring" where
  "ascii cs = map of_char cs"

definition emDash :: jsstring where
  "emDash = [0x2014]"

text \<open>
  \<open>String.prototype.trim\<close> strips WhiteSpace and LineTerminator code units from both
  ends. WhiteSpace is TAB, VT, FF, ZWNBSP and the space separators (category Zs);
  LineTerminator is LF, CR, LS and PS.
\<close>

definition isWhiteSpace :: "16 word \<Rightarrow> bool" where
  "isWhiteSpace c =
     (c = 0x0009 \<or> c = 0x000B \<or> c = 0x000C \<or> c = 0xFEFF \<or>
      c = 0x0020 \<or> c = 0x00A0 \<or> c = 0x1680 \<or> (0x2000 \<le> c \<and> c \<le> 0x200A) \<or>
      c = 0x202F \<or> c = 0x205F \<or> c = 0x3000 \<or>
      c = 0x000A \<or> c = 0x000D \<or> c = 0x2028 \<or> c = 0x2029)"

definition trim :: "jsstring \<Rightarrow> jsstring" where
  "trim s = rev (dropWhile isWhiteSpace (rev (dropWhile isWhiteSpace s)))"

text \<open>\<open>s.substring(0, n)\<close>: the first \<open>n\<close> code units, all of \<open>s\<close> when it is shorter.\<close>

definition substring0 :: "nat \<Rightarrow> jsstring \<Rightarrow> jsstring" where
  "substring0 n s = take n s"

section \<open>JavaScript numbers and \<open>toFixed\<close>\<close>

text \<open>
  The numbers of the program come out of \<open>JSON.parse\<close>: a finite double, or an infinity
  when the literal is beyond the double range; never NaN. A finite double is modelled by
  its exact value, a rational (the two zeros are one value: they compare, test and
  format alike in the code modelled here).
\<close>

datatype number = Fin rat | PosInf | NegInf

text \<open>The relational operator \<open>a > b\<close> of the source.\<close>

fun gt :: "number \<Rightarrow> number \<Rightarrow> bool" where
  "gt (Fin a) (Fin b) = (b < a)"
| "gt PosInf PosInf = False"
| "gt PosInf _ = True"
| "gt (Fin a) NegInf = True"
| "gt _ _ = False"

text \<open>
  What the program takes from its host and cannot compute from the value alone: the
  digits \<open>Number::toString\<close> gives a double of magnitude \<open>10\<^sup>2\<^sup>1\<close> or more (they depend on
  the neighbouring doubles), and the \<open>TypeError\<close> the engine raises when a property of
  \<open>undefined\<close> or \<open>null\<close> is read or a non-function is called (its text differs between
  engines).
\<close>

datatype thrown = Thrown (message: "jsstring option")

record host =
  numberToString :: "rat \<Rightarrow> jsstring"
  typeError :: thrown

fun digitsOf :: "nat \<Rightarrow> jsstring" where
  "digitsOf n =
     (if n < 10 then [of_nat (48 + n)]
      else digitsOf (n div 10) @ [of_nat (48 + n mod 10)])"

declare digitsOf.simps [simp del]

text \<open>
  \<open>Number.prototype.toFixed(f)\<close> as ECMAScript defines it. For a finite \<open>x\<close> below
  \<open>10\<^sup>2\<^sup>1\<close> in magnitude: the sign, then the integer \<open>n\<close> for which \<open>n / 10\<^sup>f - x\<close> is
  nearest to zero (the larger one when there are two), in decimal digits, padded with
  zeros to \<open>f + 1\<close> digits when shorter, with a point before the last \<open>f\<close> digits.
\<close>

definition insertPoint :: "nat \<Rightarrow> jsstring \<Rightarrow> jsstring" where
  "insertPoint f m =
     (if f = 0 then m
      else
        (let k = length m;
             m = (if k \<le> f then replicate (f + 1 - k) 0x30 @ m else m);
             k = (if k \<le> f then f + 1 else k)
         in take (k - f) m @ ascii ''.'' @ drop (k - f) m))"

definition toFixed :: "host \<Rightarrow> nat \<Rightarrow> number \<Rightarrow> jsstring" where
  "toFixed h f x =
     (case x of
        PosInf \<Rightarrow> ascii ''Infinity''
      | NegInf \<Rightarrow> ascii ''-Infinity''
      | Fin q \<Rightarrow>
          (let s = (if q < 0 then ascii ''-'' else []);
               a = \<bar>q\<bar>
           in if 10 ^ 21 \<le> a then s @ numberToString h a
              else s @ insertPoint f (digitsOf (nat \<lfloor>a * 10 ^ f + 1 / 2\<rfloor>))))"

section \<open>Data model\<close>

text \<open>The enumeration \<open>CalculationStatus\<close> of \<open>types.ts\<close>.\<close>

datatype CalculationStatus = IDLE | DERIVING | CALCULATING | SUCCESS | ERROR

text \<open>
  The value \<open>JSON.parse\<close> returns. The cast \<open>as CalculationResponse\<close> is not checked at
  run time, so the state slot \<open>result\<close> holds whatever value the reply parsed to. An
  object is the list of its properties, each name once.
\<close>

datatype json =
    JNull
  | JBool bool
  | JNum number
  | JStr jsstring
  | JArr "json list"
  | JObj "(jsstring \<times> json) list"

text \<open>
  The interfaces of \<open>types.ts\<close> say which shape a value has: an object with the named
  properties, each of the stated type (\<open>equation\<close> may be missing).
\<close>

fun isNumber :: "json \<Rightarrow> bool" where
  "isNumber (JNum x) = True"
| "isNumber v = False"

fun isString :: "json \<Rightarrow> bool" where
  "isString (JStr x) = True"
| "isString v = False"

definition required :: "(json \<Rightarrow> bool) \<Rightarrow> string \<Rightarrow> json \<Rightarrow> bool" where
  "required P k v =
     (case v of
        JObj kvs \<Rightarrow> (case map_of kvs (ascii k) of Some x \<Rightarrow> P x | None \<Rightarrow> False)
      | _ \<Rightarrow> False)"

definition optional :: "(json \<Rightarrow> bool) \<Rightarrow> string \<Rightarrow> json \<Rightarrow> bool" where
  "optional P k v =
     (case v of
        JObj kvs \<Rightarrow> (case map_of kvs (ascii k) of Some x \<Rightarrow> P x | None \<Rightarrow> True)
      | _ \<Rightarrow> False)"

definition arrayOf :: "(json \<Rightarrow> bool) \<Rightarrow> json \<Rightarrow> bool" where
  "arrayOf P v = (case v of JArr xs \<Rightarrow> list_all P xs | _ \<Rightarrow> False)"

definition ObservableResult :: "json \<Rightarrow> bool" where
  "ObservableResult v =
     (required isNumber ''ns'' v \<and> required isNumber ''r'' v \<and> required isNumber ''As'' v \<and>
      required isNumber ''nt'' v \<and> required isNumber ''alpha_s'' v)"

definition SpectrumPoint :: "json \<Rightarrow> bool" where
  "SpectrumPoint v =
     (required isNumber ''k'' v \<and> required isNumber ''scalar'' v \<and>
      required isNumber ''tensor'' v)"

definition DerivationStep :: "json \<Rightarrow> bool" where
  "DerivationStep v =
     (required isString ''title'' v \<and> required isString ''content'' v \<and>
      optional isString ''equation'' v)"

definition CalculationResponse :: "json \<Rightarrow> bool" where
  "CalculationResponse v =
     (required isString ''theoryName'' v \<and>
      required isString ''potentialForm'' v \<and>
      required (arrayOf DerivationStep) ''derivationSteps'' v \<and>
      required ObservableResult ''observables'' v \<and>
      required (arrayOf SpectrumPoint) ''spectrumData'' v \<and>
      required isString ''interpretation'' v)"

text \<open>
  The five \<open>useState\<close> slots of \<open>App\<close>. The \<open>null\<close> of \<open>result\<close> is \<open>JNull\<close> (a reply can
  parse to \<open>null\<close> too); the \<open>null\<close> of \<open>error\<close> is \<open>None\<close>.
\<close>

record app_state =
  input :: jsstring
  status :: CalculationStatus
  result :: json
  logs :: "jsstring list"
  error :: "jsstring option"

definition initial :: app_state where
  "initial = \<lparr>input = [], status = IDLE, result = JNull, logs = [], error = None\<rparr>"

section \<open>The controller\<close>

text \<open>
  \<open>addLog\<close> appends the message behind the clock reading
  \<open>new Date().toLocaleTimeString()\<close>, which the model takes as the argument \<open>now\<close>.
\<close>

definition addLog :: "jsstring \<Rightarrow> jsstring \<Rightarrow> app_state \<Rightarrow> app_state" where
  "addLog now msg s = s\<lparr>logs := logs s @ [ascii ''['' @ now @ ascii ''] '' @ msg]\<rparr>"

text \<open>
  \<open>runCalculation\<close> is an async function: it runs to its \<open>await\<close> in one go, and its
  rest runs when the request settles. The model has one function for each half.

  The first half returns at once when the trimmed input is empty. Otherwise it sets
  the status, the error and the logs and appends two log lines. Then it evaluates
  \<open>new GoogleGenAI({ apiKey: process.env.API_KEY })\<close>, outside the \<open>try\<close> block: when
  this expression throws, nothing catches the thrown value and the run stops there,
  with the state as it then is and no request. When it returns, the run enters the
  \<open>try\<close> block, appends a third log line and issues the request; the prompt and the
  response schema are constants around the input, so the request is recorded by the
  input it was built from. What the expression does is the argument \<open>ai\<close>; the three
  clock readings are arguments too.
\<close>

datatype construction = Constructed | ConstructionThrew thrown

datatype request = GenerateContent jsstring

definition runCalculation ::
  "construction \<Rightarrow> jsstring \<Rightarrow> jsstring \<Rightarrow> jsstring \<Rightarrow> app_state
     \<Rightarrow> app_state \<times> request option" where
  "runCalculation ai t1 t2 t3 s =
     (if trim (input s) = [] then (s, None)
      else
        (let s = s\<lparr>status := DERIVING\<rparr>;
             s = s\<lparr>error := None\<rparr>;
             s = s\<lparr>logs := []\<rparr>;
             s = addLog t1 (ascii ''Initializing Cosmological Agent...'') s;
             s = addLog t2
                   (ascii ''Targeting Theory: '' @ substring0 50 (input s) @ ascii ''...'') s
         in case ai of
              ConstructionThrew err \<Rightarrow> (s, None)
            | Constructed \<Rightarrow>
                (let s = addLog t3
                           (ascii ''Parsing action and deriving slow-roll parameters...'') s
                 in (s, Some (GenerateContent (input s))))))"

text \<open>
  Reading a property. The operand is a value or \<open>undefined\<close> (\<open>None\<close>); the reading
  raises a \<open>TypeError\<close> (the outer \<open>None\<close>) on \<open>undefined\<close> and \<open>null\<close>, looks the name up
  in an object, and gives \<open>undefined\<close> on every other value. The names read by the
  program (\<open>observables\<close>, \<open>r\<close>, \<open>ns\<close>, \<open>nt\<close>) are no properties of the prototypes of
  objects, arrays, strings, numbers or booleans.
\<close>

fun getProp :: "jsstring \<Rightarrow> json option \<Rightarrow> json option option" where
  "getProp k None = None"
| "getProp k (Some JNull) = None"
| "getProp k (Some (JObj kvs)) = Some (map_of kvs k)"
| "getProp k (Some v) = Some None"

text \<open>
  The call \<open>v.toFixed(f)\<close>: only a number has the method; on every other operand the
  call raises a \<open>TypeError\<close> (\<open>None\<close>).
\<close>

fun callToFixed :: "host \<Rightarrow> nat \<Rightarrow> json option \<Rightarrow> jsstring option" where
  "callToFixed h f (Some (JNum x)) = Some (toFixed h f x)"
| "callToFixed h f v = None"

text \<open>The member expression \<open>v.observables.k\<close>.\<close>

definition observable :: "string \<Rightarrow> json \<Rightarrow> json option option" where
  "observable k v =
     do {
       obs \<leftarrow> getProp (ascii ''observables'') (Some v);
       getProp (ascii k) obs
     }"

text \<open>
  The template literal of the summary log line,
  \<^verbatim>\<open>`Result: r=${data.observables.r.toFixed(4)}, ns=${data.observables.ns.toFixed(4)}`\<close>,
  evaluated from left to right; \<open>None\<close> when a \<open>TypeError\<close> is raised on the way.
\<close>

definition summaryLine :: "host \<Rightarrow> json \<Rightarrow> jsstring option" where
  "summaryLine h data =
     do {
       r \<leftarrow> observable ''r'' data;
       rs \<leftarrow> callToFixed h 4 r;
       ns \<leftarrow> observable ''ns'' data;
       nss \<leftarrow> callToFixed h 4 ns;
       Some (ascii ''Result: r='' @ rs @ ascii '', ns='' @ nss)
     }"

text \<open>
  How the awaited request settles: \<open>generateContent\<close> rejects with a thrown value,
  or it resolves and \<open>JSON.parse(response.text)\<close> throws, or it resolves and the text
  parses to a value. A thrown value is an object or a primitive other than \<open>null\<close> and
  \<open>undefined\<close>, modelled by its \<open>message\<close> property, a string (\<open>None\<close> when it has none).
\<close>

datatype outcome = Rejected thrown | ParseThrew thrown | Parsed json

definition fallbackMessage :: jsstring where
  "fallbackMessage =
     ascii ''Failed to process the theory. Ensure the input describes a valid physical model.''"

text \<open>\<open>err.message || "..."\<close>: the message when it is truthy, the fixed text otherwise.\<close>

definition errorText :: "thrown \<Rightarrow> jsstring" where
  "errorText err =
     (case message err of
        None \<Rightarrow> fallbackMessage
      | Some m \<Rightarrow> if m = [] then fallbackMessage else m)"

text \<open>
  The second half of \<open>runCalculation\<close>, from the settled request on. The \<open>try\<close> block
  ends normally or with a thrown value. It stores the result and logs a first line
  before it builds the summary line; when building that line raises, the thrown value
  is the engine's \<open>TypeError\<close>. The arguments \<open>t1\<close> and \<open>t2\<close> are the clock readings of
  the two \<open>addLog\<close> calls.
\<close>

definition tryBlock ::
  "host \<Rightarrow> jsstring \<Rightarrow> jsstring \<Rightarrow> outcome \<Rightarrow> app_state \<Rightarrow> app_state \<times> thrown option" where
  "tryBlock h t1 t2 out s =
     (case out of
        Rejected err \<Rightarrow> (s, Some err)
      | ParseThrew err \<Rightarrow> (s, Some err)
      | Parsed data \<Rightarrow>
          (let s = s\<lparr>result := data\<rparr>;
               s = addLog t1
                     (ascii ''Calculations complete. Validating results against Planck/BICEP constraints...'') s
           in case summaryLine h data of
                None \<Rightarrow> (s, Some (typeError h))
              | Some line \<Rightarrow>
                  (let s = addLog t2 line s;
                       s = s\<lparr>status := SUCCESS\<rparr>
                   in (s, None))))"

text \<open>
  The \<open>catch\<close> block (\<open>console.error\<close> changes no state); \<open>t3\<close> is the clock reading of
  its \<open>addLog\<close>.
\<close>

definition catchBlock :: "jsstring \<Rightarrow> thrown \<Rightarrow> app_state \<Rightarrow> app_state" where
  "catchBlock t3 err s =
     (let s = s\<lparr>error := Some (errorText err)\<rparr>;
          s = s\<lparr>status := ERROR\<rparr>
      in addLog t3 (ascii ''ERROR: Physical model validation failed.'') s)"

definition runCalculation_resume ::
  "host \<Rightarrow> jsstring \<Rightarrow> jsstring \<Rightarrow> jsstring \<Rightarrow> outcome \<Rightarrow> app_state \<Rightarrow> app_state" where
  "runCalculation_resume h t1 t2 t3 out s =
     (case tryBlock h t1 t2 out s of
        (s, None) \<Rightarrow> s
      | (s, Some err) \<Rightarrow> catchBlock t3 err s)"

definition handleClear :: "app_state \<Rightarrow> app_state" where
  "handleClear s = s\<lparr>input := [], result := JNull, status := IDLE, logs := [], error := None\<rparr>"

section \<open>Rendering of a result\<close>

text \<open>
  The literals \<open>0.01\<close> and \<open>0.001\<close> of the source are the doubles nearest to these
  decimals. Their exact values:
\<close>

definition literal_0_01 :: rat where
  "literal_0_01 = 5764607523034235 / 2 ^ 59"

definition literal_0_001 :: rat where
  "literal_0_001 = 1152921504606847 / 2 ^ 60"

definition sentenceA :: jsstring where
  "sentenceA = ascii ''Likely detectable by next-gen ground arrays (Simons Observatory, CMBS4).''"

definition sentenceB :: jsstring where
  "sentenceB = ascii ''At the threshold of sensitivity for LiteBIRD space mission.''"

definition sentenceC :: jsstring where
  "sentenceC = ascii ''Potentially beyond current near-term detection limits; requires highly optimized B-mode search.''"

text \<open>The nested conditional under the heading Detection Outlook, on \<open>result.observables.r\<close>.\<close>

definition detectionOutlook :: "number \<Rightarrow> jsstring" where
  "detectionOutlook r =
     (if gt r (Fin literal_0_01) then sentenceA
      else if gt r (Fin literal_0_001) then sentenceB
      else sentenceC)"

text \<open>
  The truth value JavaScript gives an operand of \<open>? :\<close>: \<open>undefined\<close>, \<open>null\<close>, \<open>false\<close>,
  zero and the empty string are falsy, every other value is truthy.
\<close>

fun truthy :: "json option \<Rightarrow> bool" where
  "truthy None = False"
| "truthy (Some JNull) = False"
| "truthy (Some (JBool b)) = b"
| "truthy (Some (JNum (Fin q))) = (q \<noteq> 0)"
| "truthy (Some (JNum _)) = True"
| "truthy (Some (JStr s)) = (s \<noteq> [])"
| "truthy (Some _) = True"

text \<open>
  The \<open>value\<close> of the Tensor Index card,
  \<^verbatim>\<open>result.observables.nt ? result.observables.nt.toFixed(4) : "-"\<close> (the placeholder
  is U+2014 in the source); \<open>None\<close> when the expression raises a \<open>TypeError\<close>.
\<close>

definition tensorIndexValue :: "host \<Rightarrow> json \<Rightarrow> jsstring option" where
  "tensorIndexValue h res =
     do {
       nt \<leftarrow> observable ''nt'' res;
       if truthy nt
       then do {
         nt \<leftarrow> observable ''nt'' res;
         callToFixed h 4 nt
       }
       else Some emDash
     }"

section \<open>Runs of the application\<close>

text \<open>
  What can happen to the application: the user edits the input, clicks Run (what the
  construction of the client does and the three clock readings come with the event),
  a pending request settles
  (with the clock readings of the second half), or the user clicks Clear. The world is
  the state of \<open>App\<close> and the number of requests issued and not yet settled; a request
  can settle only when one is pending. Run stands for a call of \<open>runCalculation\<close>,
  whether or not the button is enabled.
\<close>

datatype event =
    Edit jsstring
  | Run construction jsstring jsstring jsstring
  | Settle jsstring jsstring jsstring outcome
  | Clear

record world =
  app :: app_state
  pending :: nat

definition world0 :: world where
  "world0 = \<lparr>app = initial, pending = 0\<rparr>"

fun step :: "host \<Rightarrow> event \<Rightarrow> world \<Rightarrow> world option" where
  "step h (Edit v) w = Some (w\<lparr>app := (app w)\<lparr>input := v\<rparr>\<rparr>)"
| "step h (Run ai t1 t2 t3) w =
     (case runCalculation ai t1 t2 t3 (app w) of
        (s, None) \<Rightarrow> Some (w\<lparr>app := s\<rparr>)
      | (s, Some req) \<Rightarrow> Some \<lparr>app = s, pending = pending w + 1\<rparr>)"
| "step h (Settle t1 t2 t3 out) w =
     (if pending w = 0 then None
      else Some \<lparr>app = runCalculation_resume h t1 t2 t3 out (app w),
                  pending = pending w - 1\<rparr>)"
| "step h Clear w = Some (w\<lparr>app := handleClear (app w)\<rparr>)"

fun exec :: "host \<Rightarrow> event list \<Rightarrow> world \<Rightarrow> world option" where
  "exec h [] w = Some w"
| "exec h (e # es) w = (case step h e w of None \<Rightarrow> None | Some w' \<Rightarrow> exec h es w')"

text \<open>The \<open>disabled\<close> attribute of the Run button.\<close>

definition runDisabled :: "app_state \<Rightarrow> bool" where
  "runDisabled s = (status s = DERIVING \<or> input s = [])"

section \<open>The relation between status and result\<close>

text \<open>
  What every run keeps: a state with status Success has a result, a state with status
  Idle has none.
\<close>

definition consistent :: "app_state \<Rightarrow> bool" where
  "consistent s =
     ((status s = SUCCESS \<longrightarrow> result s \<noteq> JNull) \<and> (status s = IDLE \<longrightarrow> result s = JNull))"

text \<open>
  What the rendering of a result relies on: in a state with status Success the summary
  line of the stored result can be built, so its \<open>observables.r\<close> and \<open>observables.ns\<close>
  are numbers.
\<close>

definition summarised :: "host \<Rightarrow> app_state \<Rightarrow> bool" where
  "summarised h s = (status s = SUCCESS \<longrightarrow> summaryLine h (result s) \<noteq> None)"

section \<open>Sample inputs\<close>

definition sampleHost :: host where
  "sampleHost = \<lparr>numberToString = (\<lambda>a. ascii ''1e+21''),
                  typeError = Thrown (Some (ascii ''Cannot read properties of undefined''))\<rparr>"

definition sampleReply :: json where
  "sampleReply =
     JObj [(ascii ''theoryName'', JStr (ascii ''Starobinsky'')),
           (ascii ''observables'',
              JObj [(ascii ''ns'', JNum (Fin (31 / 32))),
                    (ascii ''r'', JNum (Fin (1 / 256))),
                    (ascii ''As'', JNum (Fin (1 / 2 ^ 29)))]),
           (ascii ''spectrumData'', JArr []),
           (ascii ''derivationSteps'', JArr [])]"

definition fullReply :: json where
  "fullReply =
     JObj [(ascii ''theoryName'', JStr (ascii ''Starobinsky'')),
           (ascii ''potentialForm'', JStr (ascii ''V = L^4 (1 - exp(-sqrt(2/3) phi))^2'')),
           (ascii ''derivationSteps'',
              JArr [JObj [(ascii ''title'', JStr (ascii ''Potential'')),
                          (ascii ''content'', JStr (ascii ''...''))],
                    JObj [(ascii ''title'', JStr (ascii ''Slow roll'')),
                          (ascii ''content'', JStr (ascii ''...'')),
                          (ascii ''equation'', JStr (ascii ''r = 16 epsilon''))]]),
           (ascii ''observables'',
              JObj [(ascii ''ns'', JNum (Fin (31 / 32))),
                    (ascii ''r'', JNum (Fin (1 / 256))),
                    (ascii ''As'', JNum (Fin (1 / 2 ^ 29))),
                    (ascii ''nt'', JNum (Fin (- (1 / 2048)))),
                    (ascii ''alpha_s'', JNum (Fin (- (1 / 1024))))]),
           (ascii ''spectrumData'',
              JArr [JObj [(ascii ''k'', JNum (Fin (1 / 16))),
                          (ascii ''scalar'', JNum (Fin (1 / 2 ^ 29))),
                          (ascii ''tensor'', JNum (Fin (1 / 2 ^ 37)))]]),
           (ascii ''interpretation'', JStr (ascii ''Consistent with Planck.''))]"

definition zeroTiltReply :: json where
  "zeroTiltReply =
     JObj [(ascii ''observables'',
              JObj [(ascii ''ns'', JNum (Fin 1)),
                    (ascii ''r'', JNum (Fin (1 / 256))),
                    (ascii ''As'', JNum (Fin (1 / 2 ^ 29))),
                    (ascii ''nt'', JNum (Fin 0))])]"

definition tiltedReply :: json where
  "tiltedReply =
     JObj [(ascii ''observables'',
              JObj [(ascii ''ns'', JNum (Fin 1)),
                    (ascii ''r'', JNum (Fin (1 / 256))),
                    (ascii ''As'', JNum (Fin (1 / 2 ^ 29))),
                    (ascii ''nt'', JNum (Fin (- (1 / 8))))])]"

definition noon :: jsstring where
  "noon = ascii ''12:00:00''"

definition networkTimeout :: thrown where
  "networkTimeout = Thrown (Some (ascii ''network networkTimeout''))"

definition failedState :: app_state where
  "failedState =
     \<lparr>input = ascii ''Starobinsky'', status = ERROR, result = JNull,
      logs = [ascii ''[11:59:00] ERROR: Physical model validation failed.''],
      error = Some (ascii ''network networkTimeout'')\<rparr>"

definition blankState :: app_state where
  "blankState =
     \<lparr>input = [0x20, 0x09, 0x0A, 0x3000], status = SUCCESS, result = sampleReply,
      logs = [ascii ''[11:59:00] Initializing Cosmological Agent...''],
      error = None\<rparr>"

definition successTrace :: "event list" where
  "successTrace =
     [Edit (ascii ''Starobinsky''),
      Run Constructed noon noon noon,
      Settle noon noon noon (Parsed sampleReply)]"

definition successWorld :: world where
  "successWorld =
     \<lparr>app =
        \<lparr>input = ascii ''Starobinsky'', status = SUCCESS, result = sampleReply,
         logs =
           [ascii ''[12:00:00] Initializing Cosmological Agent...'',
            ascii ''[12:00:00] Targeting Theory: Starobinsky...'',
            ascii ''[12:00:00] Parsing action and deriving slow-roll parameters...'',
            ascii ''[12:00:00] Calculations complete. Validating results against Planck/BICEP constraints...'',
            ascii ''[12:00:00] Result: r=0.0039, ns=0.9688''],
         error = None\<rparr>,
      pending = 0\<rparr>"

definition rerunWorld :: world where
  "rerunWorld =
     \<lparr>app =
        \<lparr>input = ascii ''Starobinsky'', status = DERIVING, result = sampleReply,
         logs =
           [ascii ''[12:00:00] Initializing Cosmological Agent...'',
            ascii ''[12:00:00] Targeting Theory: Starobinsky...'',
            ascii ''[12:00:00] Parsing action and deriving slow-roll parameters...''],
         error = None\<rparr>,
      pending = 1\<rparr>"

definition staleTrace :: "event list" where
  "staleTrace = successTrace @ [Run Constructed noon noon noon, Settle noon noon noon (Rejected networkTimeout)]"

definition malformedTrace :: "event list" where
  "malformedTrace = successTrace @ [Run Constructed noon noon noon, Settle noon noon noon (Parsed (JObj []))]"

section \<open>Lemmas on strings and numbers\<close>

lemma dropWhile_all: "(\<forall>x \<in> set (dropWhile P xs). P x) \<longleftrightarrow> (\<forall>x \<in> set xs. P x)"
  by (induction xs) auto

lemma trim_empty_iff: "trim s = [] \<longleftrightarrow> (\<forall>c \<in> set s. isWhiteSpace c)"
  by (simp add: trim_def dropWhile_eq_Nil_conv dropWhile_all)

lemma trim_sample: "trim (ascii ''Starobinsky'') \<noteq> []"
  by (simp add: trim_def isWhiteSpace_def ascii_def)

lemma floor_numeral_div: "\<lfloor>numeral a / numeral b :: rat\<rfloor> = numeral a div numeral b"
  using floor_divide_of_int_eq [of "numeral a" "numeral b", where ?'a = rat] by simp

lemma floor_one_div: "\<lfloor>1 / numeral b :: rat\<rfloor> = 1 div numeral b"
  using floor_divide_of_int_eq [of 1 "numeral b", where ?'a = rat] by simp

lemma replicate_numeral_unfold: "replicate (numeral k) x = x # replicate (pred_numeral k) x"
  by (simp add: numeral_eq_Suc)

lemma insertPoint_shape:
  assumes "f \<noteq> 0"
  shows "\<exists>a b. insertPoint f m = a @ ascii ''.'' @ b \<and> length b = f \<and> a \<noteq> []"
proof (cases "length m \<le> f")
  case True
  let ?m = "replicate (f + 1 - length m) 0x30 @ m"
  have len: "length ?m = f + 1" using True by simp
  have "insertPoint f m = take 1 ?m @ ascii ''.'' @ drop 1 ?m"
    using assms True by (simp add: insertPoint_def Let_def)
  moreover have "length (drop 1 ?m) = f" using len by simp
  moreover have "take 1 ?m \<noteq> []"
    using len by (metis One_nat_def add_is_0 length_0_conv take_eq_Nil zero_neq_one)
  ultimately show ?thesis by blast
next
  case False
  have "insertPoint f m = take (length m - f) m @ ascii ''.'' @ drop (length m - f) m"
    using assms False by (simp add: insertPoint_def Let_def)
  moreover have "length (drop (length m - f) m) = f" using False by simp
  moreover have "take (length m - f) m \<noteq> []" using False by auto
  ultimately show ?thesis by blast
qed

lemma toFixed_shape:
  assumes "\<bar>q\<bar> < 10 ^ 21" and "f \<noteq> 0"
  shows "\<exists>a b. toFixed h f (Fin q) = a @ ascii ''.'' @ b \<and> length b = f"
proof -
  obtain a b
    where ab: "insertPoint f (digitsOf (nat \<lfloor>\<bar>q\<bar> * 10 ^ f + 1 / 2\<rfloor>)) = a @ ascii ''.'' @ b"
      and b: "length b = f"
    using insertPoint_shape [OF assms(2)] by blast
  have "toFixed h f (Fin q) = ((if q < 0 then ascii ''-'' else []) @ a) @ ascii ''.'' @ b"
    using assms(1) ab by (simp add: toFixed_def Let_def)
  with b show ?thesis by blast
qed

lemma digitsOf_0: "digitsOf 0 = ascii ''0''"
  by (simp add: digitsOf.simps ascii_def)

lemma digitsOf_39: "digitsOf 39 = ascii ''39''"
  by (simp add: digitsOf.simps ascii_def)

lemma digitsOf_1250: "digitsOf 1250 = ascii ''1250''"
  by (simp add: digitsOf.simps ascii_def)

lemma digitsOf_9688: "digitsOf 9688 = ascii ''9688''"
  by (simp add: digitsOf.simps ascii_def)

lemma toFixed_zero: "toFixed h 4 (Fin 0) = ascii ''0.0000''"
  by (simp add: toFixed_def insertPoint_def Let_def floor_one_div digitsOf_0 ascii_def
      replicate_numeral_unfold)

lemma toFixed_sample_r: "toFixed h 4 (Fin (1 / 256)) = ascii ''0.0039''"
  by (simp add: toFixed_def insertPoint_def Let_def floor_numeral_div digitsOf_39 ascii_def
      replicate_numeral_unfold)

lemma toFixed_sample_ns: "toFixed h 4 (Fin (31 / 32)) = ascii ''0.9688''"
  by (simp add: toFixed_def insertPoint_def Let_def floor_numeral_div digitsOf_9688 ascii_def
      replicate_numeral_unfold)

lemma toFixed_sample_nt: "toFixed h 4 (Fin (- (1 / 8))) = ascii ''-0.1250''"
  by (simp add: toFixed_def insertPoint_def Let_def floor_numeral_div digitsOf_1250 ascii_def
      replicate_numeral_unfold)

text \<open>
  The two literals are doubles (a 53-bit numerator over a power of two) and lie within
  half a unit in the last place of the decimals they are written as.
\<close>

lemma literals_are_nearest_doubles:
  "\<bar>literal_0_01 - 1 / 100\<bar> \<le> 1 / 2 ^ 60 \<and> \<bar>literal_0_001 - 1 / 1000\<bar> \<le> 1 / 2 ^ 63"
  by (simp add: literal_0_01_def literal_0_001_def)

lemma literal_order: "literal_0_001 < literal_0_01"
  by (simp add: literal_0_01_def literal_0_001_def)

lemma sentences_distinct:
  "sentenceA \<noteq> sentenceB" "sentenceB \<noteq> sentenceC" "sentenceA \<noteq> sentenceC"
  by (simp_all add: sentenceA_def sentenceB_def sentenceC_def ascii_def)

lemma emDash_not_zero: "emDash \<noteq> ascii ''0.0000''"
  by (simp add: emDash_def ascii_def)

section \<open>Lemmas on the two halves of a run\<close>

lemma runCalculation_cases:
  "\<exists>s' req. runCalculation ai t1 t2 t3 s = (s', req) \<and>
     (s' = s \<or> (status s' = DERIVING \<and> result s' = result s))"
  by (cases ai) (simp_all add: runCalculation_def addLog_def Let_def)

lemma tryBlock_Rejected: "tryBlock h t1 t2 (Rejected err) s = (s, Some err)"
  by (simp add: tryBlock_def)

lemma tryBlock_ParseThrew: "tryBlock h t1 t2 (ParseThrew err) s = (s, Some err)"
  by (simp add: tryBlock_def)

lemma tryBlock_Parsed_Some:
  "summaryLine h data = Some line \<Longrightarrow>
   tryBlock h t1 t2 (Parsed data) s =
     (s\<lparr>result := data,
        logs := logs s @
          [ascii ''['' @ t1 @ ascii ''] '' @
             ascii ''Calculations complete. Validating results against Planck/BICEP constraints...'',
           ascii ''['' @ t2 @ ascii ''] '' @ line],
        status := SUCCESS\<rparr>, None)"
  by (simp add: tryBlock_def addLog_def Let_def)

lemma tryBlock_Parsed_None:
  "summaryLine h data = None \<Longrightarrow>
   tryBlock h t1 t2 (Parsed data) s =
     (s\<lparr>result := data,
        logs := logs s @
          [ascii ''['' @ t1 @ ascii ''] '' @
             ascii ''Calculations complete. Validating results against Planck/BICEP constraints...'']\<rparr>,
      Some (typeError h))"
  by (simp add: tryBlock_def addLog_def Let_def)

lemma catchBlock_eq:
  "catchBlock t3 err s =
     s\<lparr>error := Some (errorText err), status := ERROR,
       logs := logs s @
         [ascii ''['' @ t3 @ ascii ''] '' @ ascii ''ERROR: Physical model validation failed.'']\<rparr>"
  by (simp add: catchBlock_def addLog_def Let_def)

lemma summaryLine_Some:
  "observable ''r'' data = Some (Some (JNum r)) \<Longrightarrow>
   observable ''ns'' data = Some (Some (JNum ns)) \<Longrightarrow>
   summaryLine h data =
     Some (ascii ''Result: r='' @ toFixed h 4 r @ ascii '', ns='' @ toFixed h 4 ns)"
  by (simp add: summaryLine_def)

lemma summaryLine_JNull: "summaryLine h JNull = None"
  by (simp add: summaryLine_def observable_def)

lemma summaryLine_empty: "summaryLine h (JObj []) = None"
  by (simp add: summaryLine_def observable_def)

lemma observable_sample:
  "observable ''r'' sampleReply = Some (Some (JNum (Fin (1 / 256))))"
  "observable ''ns'' sampleReply = Some (Some (JNum (Fin (31 / 32))))"
  "observable ''nt'' sampleReply = Some None"
  by (simp_all add: observable_def sampleReply_def ascii_def)

lemma summaryLine_sample:
  "summaryLine h sampleReply = Some (ascii ''Result: r=0.0039, ns=0.9688'')"
  by (simp add: summaryLine_Some [OF observable_sample(1,2)] toFixed_sample_r toFixed_sample_ns
      ascii_def)

lemma required_number:
  "required isNumber k v \<Longrightarrow> \<exists>x. getProp (ascii k) (Some v) = Some (Some (JNum x))"
  by (cases v) (auto simp: required_def split: option.splits elim: isNumber.elims)

lemma CalculationResponse_observables:
  assumes "CalculationResponse data"
  shows "\<exists>r ns. observable ''r'' data = Some (Some (JNum r)) \<and>
                observable ''ns'' data = Some (Some (JNum ns))"
proof -
  from assms have "required ObservableResult ''observables'' data"
    by (simp add: CalculationResponse_def)
  then obtain obs where o: "getProp (ascii ''observables'') (Some data) = Some (Some obs)"
    and r: "ObservableResult obs"
    by (cases data) (auto simp: required_def split: option.splits)
  from r required_number [of "''r''" obs] required_number [of "''ns''" obs]
  show ?thesis using o by (auto simp: observable_def ObservableResult_def)
qed

lemma CalculationResponse_fullReply: "CalculationResponse fullReply"
  by (simp add: CalculationResponse_def ObservableResult_def SpectrumPoint_def
      DerivationStep_def required_def optional_def arrayOf_def fullReply_def ascii_def)

lemma observable_fullReply:
  "observable ''r'' fullReply = Some (Some (JNum (Fin (1 / 256))))"
  "observable ''ns'' fullReply = Some (Some (JNum (Fin (31 / 32))))"
  by (simp_all add: observable_def fullReply_def ascii_def)

lemma CalculationResponse_succeeds:
  assumes "CalculationResponse data"
  shows "status (runCalculation_resume h t1 t2 t3 (Parsed data) s) = SUCCESS \<and>
         result (runCalculation_resume h t1 t2 t3 (Parsed data) s) = data"
proof -
  obtain r ns where "observable ''r'' data = Some (Some (JNum r))"
    and "observable ''ns'' data = Some (Some (JNum ns))"
    using CalculationResponse_observables [OF assms] by blast
  from tryBlock_Parsed_Some [OF summaryLine_Some [OF this]] show ?thesis
    by (simp add: runCalculation_resume_def)
qed

lemma resume_cases:
  "status (runCalculation_resume h t1 t2 t3 out s) = ERROR \<or>
   (status (runCalculation_resume h t1 t2 t3 out s) = SUCCESS \<and>
    result (runCalculation_resume h t1 t2 t3 out s) \<noteq> JNull)"
proof (cases out)
  case (Rejected err)
  then show ?thesis by (simp add: runCalculation_resume_def tryBlock_Rejected catchBlock_eq)
next
  case (ParseThrew err)
  then show ?thesis by (simp add: runCalculation_resume_def tryBlock_ParseThrew catchBlock_eq)
next
  case (Parsed data)
  show ?thesis
  proof (cases "summaryLine h data")
    case None
    with Parsed show ?thesis
      by (simp add: runCalculation_resume_def tryBlock_Parsed_None catchBlock_eq)
  next
    case (Some line)
    then have "data \<noteq> JNull" using summaryLine_JNull by auto
    with Parsed Some show ?thesis
      by (simp add: runCalculation_resume_def tryBlock_Parsed_Some)
  qed
qed

lemma callToFixed_Some: "callToFixed h f v = Some str \<Longrightarrow> \<exists>x. v = Some (JNum x)"
  by (cases "(h, f, v)" rule: callToFixed.cases) auto

lemma summaryLine_numbers:
  assumes "summaryLine h data = Some line"
  shows "\<exists>r ns. observable ''r'' data = Some (Some (JNum r)) \<and>
                observable ''ns'' data = Some (Some (JNum ns))"
  using assms
  by (auto simp: summaryLine_def split: Option.bind_splits dest!: callToFixed_Some)

lemma resume_summarised: "summarised h (runCalculation_resume h t1 t2 t3 out s)"
proof (cases out)
  case (Rejected err)
  then show ?thesis
    by (simp add: summarised_def runCalculation_resume_def tryBlock_Rejected catchBlock_eq)
next
  case (ParseThrew err)
  then show ?thesis
    by (simp add: summarised_def runCalculation_resume_def tryBlock_ParseThrew catchBlock_eq)
next
  case (Parsed data)
  show ?thesis
  proof (cases "summaryLine h data")
    case None
    with Parsed show ?thesis
      by (simp add: summarised_def runCalculation_resume_def tryBlock_Parsed_None catchBlock_eq)
  next
    case (Some line)
    with Parsed show ?thesis
      by (simp add: summarised_def runCalculation_resume_def tryBlock_Parsed_Some)
  qed
qed

section \<open>Lemmas on runs of the application\<close>

lemma exec_append:
  "exec h (es @ fs) w = (case exec h es w of None \<Rightarrow> None | Some w' \<Rightarrow> exec h fs w')"
  by (induction es arbitrary: w) (auto split: option.splits)

lemma exec_invariant:
  assumes "\<And>e w w'. P (app w) \<Longrightarrow> step h e w = Some w' \<Longrightarrow> P (app w')"
    and "P (app w0)" and "exec h evs w0 = Some w"
  shows "P (app w)"
  using assms(2,3)
proof (induction evs arbitrary: w0)
  case Nil
  then show ?case by simp
next
  case (Cons e evs)
  then obtain w1 where s: "step h e w0 = Some w1" and r: "exec h evs w1 = Some w"
    by (auto split: option.splits)
  from assms(1) [OF Cons.prems(1) s] have "P (app w1)" .
  from Cons.IH [OF this r] show ?case .
qed

lemma step_Run:
  assumes "step h (Run ai t1 t2 t3) w = Some w'"
  shows "app w' = app w \<or> (status (app w') = DERIVING \<and> result (app w') = result (app w))"
  using assms runCalculation_cases [of ai t1 t2 t3 "app w"]
  by (auto split: option.splits)

lemma step_consistent:
  assumes "consistent (app w)" and "step h e w = Some w'"
  shows "consistent (app w')"
proof (cases e)
  case (Edit v)
  with assms show ?thesis by (auto simp: consistent_def)
next
  case (Run ai t1 t2 t3)
  with assms step_Run [of h ai t1 t2 t3 w w'] show ?thesis
    by (auto simp: consistent_def)
next
  case (Settle t1 t2 t3 out)
  with assms resume_cases [of h t1 t2 t3 out "app w"] show ?thesis
    by (auto simp: consistent_def split: if_splits)
next
  case Clear
  with assms show ?thesis by (auto simp: consistent_def handleClear_def)
qed

lemma step_not_calculating:
  assumes "status (app w) \<noteq> CALCULATING" and "step h e w = Some w'"
  shows "status (app w') \<noteq> CALCULATING"
proof (cases e)
  case (Edit v)
  with assms show ?thesis by auto
next
  case (Run ai t1 t2 t3)
  with assms step_Run [of h ai t1 t2 t3 w w'] show ?thesis
    by auto
next
  case (Settle t1 t2 t3 out)
  with assms resume_cases [of h t1 t2 t3 out "app w"] show ?thesis
    by (auto split: if_splits)
next
  case Clear
  with assms show ?thesis by (auto simp: handleClear_def)
qed

lemma step_summarised:
  assumes "summarised h (app w)" and "step h e w = Some w'"
  shows "summarised h (app w')"
proof (cases e)
  case (Edit v)
  with assms show ?thesis by (auto simp: summarised_def)
next
  case (Run ai t1 t2 t3)
  with assms step_Run [of h ai t1 t2 t3 w w'] show ?thesis
    by (auto simp: summarised_def)
next
  case (Settle t1 t2 t3 out)
  with assms resume_summarised [of h t1 t2 t3 out "app w"] show ?thesis
    by (auto split: if_splits)
next
  case Clear
  with assms show ?thesis by (auto simp: summarised_def handleClear_def)
qed

lemma success_result_has_numbers:
  assumes "exec h evs world0 = Some w" and "status (app w) = SUCCESS"
  shows "\<exists>r ns. observable ''r'' (result (app w)) = Some (Some (JNum r)) \<and>
                observable ''ns'' (result (app w)) = Some (Some (JNum ns))"
proof -
  have "summarised h (app w)"
  proof (rule exec_invariant [where P = "summarised h" and h = h])
    show "\<And>e w w'. summarised h (app w) \<Longrightarrow> step h e w = Some w' \<Longrightarrow> summarised h (app w')"
      by (rule step_summarised)
    show "summarised h (app world0)"
      by (simp add: summarised_def world0_def initial_def)
    show "exec h evs world0 = Some w" by fact
  qed
  with assms(2) obtain line where "summaryLine h (result (app w)) = Some line"
    by (auto simp: summarised_def)
  then show ?thesis by (rule summaryLine_numbers)
qed

text \<open>
  The sample run: the user types a theory and clicks Run, and the reply parses. The
  Run button is enabled when it is clicked, here and when it is clicked again in the
  state the run ends in.
\<close>

lemma exec_successTrace: "exec sampleHost successTrace world0 = Some successWorld"
  by (simp add: successTrace_def successWorld_def world0_def initial_def runCalculation_def
      trim_sample [unfolded ascii_def, simplified] runCalculation_resume_def
      tryBlock_Parsed_Some [OF summaryLine_sample] addLog_def substring0_def Let_def noon_def
      ascii_def)

lemma sample_button_enabled:
  "\<not> runDisabled ((app world0)\<lparr>input := ascii ''Starobinsky''\<rparr>) \<and> \<not> runDisabled (app successWorld)"
  by (simp add: runDisabled_def world0_def initial_def successWorld_def ascii_def)

lemma step_rerun: "step h (Run Constructed noon noon noon) successWorld = Some rerunWorld"
  by (simp add: successWorld_def rerunWorld_def runCalculation_def
      trim_sample [unfolded ascii_def, simplified] addLog_def substring0_def Let_def noon_def
      ascii_def)

lemma exec_rerun:
  "exec h [Run Constructed noon noon noon, Settle t1 t2 t3 out] successWorld =
     Some \<lparr>app = runCalculation_resume h t1 t2 t3 out (app rerunWorld), pending = 0\<rparr>"
proof -
  have "pending rerunWorld = 1" by (simp add: rerunWorld_def)
  then show ?thesis unfolding exec.simps step_rerun by simp
qed

section \<open>Properties\<close>

text \<open>
  C1. The claim: in every reachable state the result is non-null if and only if the
  status is Success. It fails from right to left: \<open>runCalculation\<close> never clears the
  result, so after a successful run a second run that is rejected ends with status
  Error and the result of the first run still stored.
\<close>

theorem stale_result_after_failed_rerun:
  "map_option (status \<circ> app) (exec sampleHost staleTrace world0) = Some ERROR \<and>
   map_option (result \<circ> app) (exec sampleHost staleTrace world0) = Some sampleReply \<and>
   sampleReply \<noteq> JNull"
proof -
  have "exec sampleHost staleTrace world0 =
      Some \<lparr>app = runCalculation_resume sampleHost noon noon noon (Rejected networkTimeout)
                    (app rerunWorld), pending = 0\<rparr>"
    by (simp add: staleTrace_def exec_append exec_successTrace exec_rerun del: exec.simps)
  moreover have "sampleReply \<noteq> JNull" by (simp add: sampleReply_def)
  ultimately show ?thesis
    by (simp add: runCalculation_resume_def tryBlock_Rejected catchBlock_eq rerunWorld_def)
qed

text \<open>
  C1, as the code has it: in every state reached from the initial one by edits, runs,
  settled requests and clears, in any order, status Success implies a non-null result
  and status Idle implies a null result. (With status Deriving or Error the result of
  an earlier run may be present.)
\<close>

theorem success_has_result:
  assumes "exec h evs world0 = Some w"
  shows "(status (app w) = SUCCESS \<longrightarrow> result (app w) \<noteq> JNull) \<and>
         (status (app w) = IDLE \<longrightarrow> result (app w) = JNull)"
proof -
  have "consistent (app world0)" by (simp add: consistent_def world0_def initial_def)
  from exec_invariant [of consistent h, OF step_consistent this assms]
  show ?thesis by (simp add: consistent_def)
qed

theorem success_has_result_witness:
  "exec sampleHost successTrace world0 = Some successWorld \<and>
   status (app successWorld) = SUCCESS \<and> result (app successWorld) \<noteq> JNull"
  using success_has_result [OF exec_successTrace] exec_successTrace
  by (simp add: successWorld_def)

text \<open>
  C2. The outlook sentence depends on \<open>r\<close> alone, with the two literals as its only
  boundaries: above \<open>0.01\<close> it is sentence A, above \<open>0.001\<close> and up to \<open>0.01\<close> sentence B,
  up to \<open>0.001\<close> sentence C; at \<open>0.01\<close> itself it is B and at \<open>0.001\<close> itself C. The three
  sentences differ. (An infinite \<open>r\<close> falls on the side of its sign.)
\<close>

theorem detectionOutlook_boundaries:
  "(literal_0_01 < q \<longrightarrow> detectionOutlook (Fin q) = sentenceA) \<and>
   (literal_0_001 < q \<and> q \<le> literal_0_01 \<longrightarrow> detectionOutlook (Fin q) = sentenceB) \<and>
   (q \<le> literal_0_001 \<longrightarrow> detectionOutlook (Fin q) = sentenceC) \<and>
   detectionOutlook (Fin literal_0_01) = sentenceB \<and>
   detectionOutlook (Fin literal_0_001) = sentenceC \<and>
   detectionOutlook PosInf = sentenceA \<and>
   detectionOutlook NegInf = sentenceC \<and>
   sentenceA \<noteq> sentenceB \<and> sentenceB \<noteq> sentenceC \<and> sentenceA \<noteq> sentenceC"
  using literal_order sentences_distinct by (auto simp: detectionOutlook_def)

theorem detectionOutlook_boundaries_witness:
  "literal_0_01 < 1 / 64 \<and> detectionOutlook (Fin (1 / 64)) = sentenceA \<and>
   literal_0_001 < 1 / 256 \<and> 1 / 256 \<le> literal_0_01 \<and>
   detectionOutlook (Fin (1 / 256)) = sentenceB \<and>
   1 / 2048 \<le> literal_0_001 \<and> detectionOutlook (Fin (1 / 2048)) = sentenceC"
proof -
  have a: "literal_0_01 < 1 / 64" by (simp add: literal_0_01_def)
  have b: "literal_0_001 < 1 / 256 \<and> 1 / 256 \<le> literal_0_01"
    by (simp add: literal_0_01_def literal_0_001_def)
  have c: "1 / 2048 \<le> literal_0_001" by (simp add: literal_0_001_def)
  show ?thesis
    using a b c detectionOutlook_boundaries [of "1 / 64"]
      detectionOutlook_boundaries [of "1 / 256"] detectionOutlook_boundaries [of "1 / 2048"]
    by simp
qed

text \<open>
  C3. When the trimmed input is not empty, the first half of the run action (all that
  happens before a request can settle) sets the status to Deriving and the error to
  null, empties the logs and appends the initializing lines to them; the input and
  the result stay. This holds from every status, Idle, Success and Error among them.
  When the client is constructed the logs are the three lines and the request is
  issued; when its construction throws they are the first two lines and no request
  is issued.
\<close>

theorem runCalculation_starts:
  "trim (input s) \<noteq> [] \<Longrightarrow>
   runCalculation Constructed t1 t2 t3 s =
     (s\<lparr>status := DERIVING, error := None,
        logs :=
          [ascii ''['' @ t1 @ ascii ''] '' @ ascii ''Initializing Cosmological Agent...'',
           ascii ''['' @ t2 @ ascii ''] '' @
             ascii ''Targeting Theory: '' @ substring0 50 (input s) @ ascii ''...'',
           ascii ''['' @ t3 @ ascii ''] '' @
             ascii ''Parsing action and deriving slow-roll parameters...'']\<rparr>,
      Some (GenerateContent (input s))) \<and>
   runCalculation (ConstructionThrew err) t1 t2 t3 s =
     (s\<lparr>status := DERIVING, error := None,
        logs :=
          [ascii ''['' @ t1 @ ascii ''] '' @ ascii ''Initializing Cosmological Agent...'',
           ascii ''['' @ t2 @ ascii ''] '' @
             ascii ''Targeting Theory: '' @ substring0 50 (input s) @ ascii ''...'']\<rparr>,
      None)"
  by (simp add: runCalculation_def addLog_def Let_def)

theorem runCalculation_starts_witness:
  "trim (input failedState) \<noteq> [] \<and>
   status (fst (runCalculation Constructed noon noon noon failedState)) = DERIVING \<and>
   error (fst (runCalculation Constructed noon noon noon failedState)) = None \<and>
   length (logs (fst (runCalculation Constructed noon noon noon failedState))) = 3 \<and>
   snd (runCalculation Constructed noon noon noon failedState)
     = Some (GenerateContent (ascii ''Starobinsky'')) \<and>
   status (fst (runCalculation (ConstructionThrew networkTimeout) noon noon noon failedState))
     = DERIVING \<and>
   error (fst (runCalculation (ConstructionThrew networkTimeout) noon noon noon failedState))
     = None \<and>
   length (logs (fst (runCalculation (ConstructionThrew networkTimeout) noon noon noon
     failedState))) = 2 \<and>
   snd (runCalculation (ConstructionThrew networkTimeout) noon noon noon failedState) = None"
proof -
  have t: "trim (input failedState) \<noteq> []"
    using trim_sample by (simp add: failedState_def)
  show ?thesis
    using t runCalculation_starts [OF t, of noon noon noon networkTimeout]
    by (simp add: failedState_def)
qed

text \<open>
  C4. When the input is empty or has only whitespace in it, the run action changes
  nothing (status, logs, result, error and input are as before) and issues no request.
\<close>

theorem runCalculation_blank_noop:
  "\<forall>c \<in> set (input s). isWhiteSpace c \<Longrightarrow> runCalculation ai t1 t2 t3 s = (s, None)"
  by (simp add: runCalculation_def trim_empty_iff)

theorem runCalculation_blank_noop_witness:
  "list_all isWhiteSpace (input blankState) \<and>
   runCalculation Constructed noon noon noon blankState = (blankState, None) \<and>
   runCalculation (ConstructionThrew networkTimeout) noon noon noon blankState
     = (blankState, None) \<and>
   list_all isWhiteSpace (input initial) \<and>
   runCalculation Constructed noon noon noon initial = (initial, None)"
proof -
  have b: "\<forall>c \<in> set (input blankState). isWhiteSpace c"
    by (simp add: blankState_def isWhiteSpace_def)
  have i: "\<forall>c \<in> set (input initial). isWhiteSpace c"
    by (simp add: initial_def)
  show ?thesis
    using b i runCalculation_blank_noop [OF b, of Constructed noon noon noon]
      runCalculation_blank_noop [OF b, of "ConstructionThrew networkTimeout" noon noon noon]
      runCalculation_blank_noop [OF i, of Constructed noon noon noon]
    by (simp add: list_all_iff)
qed

text \<open>
  C5. When the reply parses to a value whose \<open>observables.r\<close> and \<open>observables.ns\<close> are
  numbers, the second half of the run action stores exactly the parsed value as the
  result, sets the status to Success and appends two log lines, the second being the
  summary of the two numbers; input and error stay. Every reply that parses as a
  CalculationResponse is such a value: one with all the properties of the interface
  (lemma \<open>CalculationResponse_observables\<close>), and also one that has only the required
  properties of the response schema, as \<open>sampleReply\<close>.
\<close>

theorem resume_parsed_success:
  assumes "observable ''r'' data = Some (Some (JNum r))"
    and "observable ''ns'' data = Some (Some (JNum ns))"
  shows "runCalculation_resume h t1 t2 t3 (Parsed data) s =
     s\<lparr>result := data,
       logs := logs s @
         [ascii ''['' @ t1 @ ascii ''] '' @
            ascii ''Calculations complete. Validating results against Planck/BICEP constraints...'',
          ascii ''['' @ t2 @ ascii ''] '' @
            ascii ''Result: r='' @ toFixed h 4 r @ ascii '', ns='' @ toFixed h 4 ns],
       status := SUCCESS\<rparr>"
  using tryBlock_Parsed_Some [OF summaryLine_Some [OF assms]]
  by (simp add: runCalculation_resume_def)

theorem resume_parsed_success_witness:
  "observable ''r'' sampleReply = Some (Some (JNum (Fin (1 / 256)))) \<and>
   observable ''ns'' sampleReply = Some (Some (JNum (Fin (31 / 32)))) \<and>
   status (runCalculation_resume sampleHost noon noon noon (Parsed sampleReply) (app rerunWorld))
     = SUCCESS \<and>
   result (runCalculation_resume sampleHost noon noon noon (Parsed sampleReply) (app rerunWorld))
     = sampleReply \<and>
   error (runCalculation_resume sampleHost noon noon noon (Parsed sampleReply) (app rerunWorld))
     = None \<and>
   last (logs (runCalculation_resume sampleHost noon noon noon (Parsed sampleReply)
     (app rerunWorld)))
     = ascii ''['' @ noon @ ascii ''] '' @ ascii ''Result: r='' @ ascii ''0.0039'' @
         ascii '', ns='' @ ascii ''0.9688'' \<and>
   observable ''r'' fullReply = Some (Some (JNum (Fin (1 / 256)))) \<and>
   observable ''ns'' fullReply = Some (Some (JNum (Fin (31 / 32)))) \<and>
   status (runCalculation_resume sampleHost noon noon noon (Parsed fullReply) (app rerunWorld))
     = SUCCESS \<and>
   result (runCalculation_resume sampleHost noon noon noon (Parsed fullReply) (app rerunWorld))
     = fullReply"
  using observable_sample(1,2) observable_fullReply
    resume_parsed_success
      [OF observable_sample(1,2), of sampleHost noon noon noon "app rerunWorld"]
    resume_parsed_success
      [OF observable_fullReply, of sampleHost noon noon noon "app rerunWorld"]
  by (simp add: toFixed_sample_r toFixed_sample_ns rerunWorld_def)

text \<open>
  C6. The claim: on any failure of a run the result slot is not modified by that
  call. It fails for a reply that parses but has no \<open>observables\<close>: the parsed value is
  stored before the summary line is built, building it raises, and the run ends with
  status Error and the result of the earlier run replaced by the new value.
\<close>

theorem failed_run_overwrites_result:
  "map_option (result \<circ> app) (exec sampleHost (butlast malformedTrace) world0) = Some sampleReply \<and>
   map_option (status \<circ> app) (exec sampleHost malformedTrace world0) = Some ERROR \<and>
   map_option (result \<circ> app) (exec sampleHost malformedTrace world0) = Some (JObj []) \<and>
   snd (tryBlock sampleHost noon noon (Parsed (JObj [])) (app rerunWorld))
     = Some (typeError sampleHost) \<and>
   JObj [] \<noteq> sampleReply"
proof -
  have "exec sampleHost (butlast malformedTrace) world0 = Some rerunWorld"
    by (simp add: malformedTrace_def butlast_append exec_append exec_successTrace step_rerun
        del: step.simps)
  moreover have "exec sampleHost malformedTrace world0 =
      Some \<lparr>app = runCalculation_resume sampleHost noon noon noon (Parsed (JObj []))
                    (app rerunWorld), pending = 0\<rparr>"
    by (simp add: malformedTrace_def exec_append exec_successTrace exec_rerun del: exec.simps)
  moreover have "JObj [] \<noteq> sampleReply" by (simp add: sampleReply_def)
  ultimately show ?thesis
    by (simp add: runCalculation_resume_def tryBlock_Parsed_None [OF summaryLine_empty]
        catchBlock_eq rerunWorld_def)
qed

text \<open>
  C6, as the code has it: when the request is rejected, or the reply does not parse,
  the run ends with status Error and the result slot as it was before the call, so a
  result stored by an earlier run stays.
\<close>

theorem failed_request_keeps_result:
  "result (runCalculation_resume h t1 t2 t3 (Rejected err) s) = result s \<and>
   status (runCalculation_resume h t1 t2 t3 (Rejected err) s) = ERROR \<and>
   result (runCalculation_resume h t1 t2 t3 (ParseThrew err) s) = result s \<and>
   status (runCalculation_resume h t1 t2 t3 (ParseThrew err) s) = ERROR"
  by (simp add: runCalculation_resume_def tryBlock_Rejected tryBlock_ParseThrew catchBlock_eq)

theorem failed_request_keeps_result_witness:
  "result (runCalculation_resume sampleHost noon noon noon (Rejected networkTimeout) (app rerunWorld))
     = sampleReply \<and>
   status (runCalculation_resume sampleHost noon noon noon (Rejected networkTimeout) (app rerunWorld))
     = ERROR"
  using failed_request_keeps_result [of sampleHost noon noon noon networkTimeout "app rerunWorld"]
  by (simp add: rerunWorld_def)



text \<open>
  C8. Whatever the state before (any status, input, result, logs, error), the clear
  action leaves the input empty, the result null, the logs empty, the error null and
  the status Idle.
\<close>

theorem handleClear_resets:
  "handleClear s = \<lparr>input = [], status = IDLE, result = JNull, logs = [], error = None\<rparr>"
  by (simp add: handleClear_def)

theorem handleClear_resets_witness:
  "handleClear (app successWorld) = initial"
  using handleClear_resets [of "app successWorld"]
  by (simp add: initial_def)

text \<open>
  C9. The enumeration has the value Calculating, and no state reached from the initial
  one by edits, runs, settled requests and clears, in any order, has it as its status.
\<close>

theorem status_never_calculating:
  assumes "exec h evs world0 = Some w"
  shows "status (app w) \<noteq> CALCULATING"
proof -
  have "status (app world0) \<noteq> CALCULATING" by (simp add: world0_def initial_def)
  from exec_invariant [of "\<lambda>s. status s \<noteq> CALCULATING" h, OF step_not_calculating this assms]
  show ?thesis .
qed

theorem status_never_calculating_witness:
  "exec sampleHost successTrace world0 = Some successWorld \<and>
   status (app successWorld) \<noteq> CALCULATING"
  using status_never_calculating [OF exec_successTrace] exec_successTrace
  by simp

text \<open>
  C10. When \<open>observables.nt\<close> of the result is the number zero, the Tensor Index card
  shows the placeholder, not \<open>0.0000\<close>, as it does when \<open>nt\<close> is absent: the test is for
  truthiness. For every other number \<open>nt\<close> it shows \<open>nt.toFixed(4)\<close>, which for a finite
  \<open>nt\<close> below \<open>10\<^sup>2\<^sup>1\<close> in magnitude ends in a point and four digits.
\<close>

theorem tensorIndex_zero_is_placeholder:
  "(observable ''nt'' res = Some (Some (JNum (Fin 0))) \<longrightarrow>
      tensorIndexValue h res = Some emDash) \<and>
   (observable ''nt'' res = Some None \<longrightarrow> tensorIndexValue h res = Some emDash) \<and>
   (\<forall>x. observable ''nt'' res = Some (Some (JNum x)) \<and> x \<noteq> Fin 0 \<longrightarrow>
        tensorIndexValue h res = Some (toFixed h 4 x)) \<and>
   (\<forall>q. q \<noteq> 0 \<and> \<bar>q\<bar> < 10 ^ 21 \<longrightarrow>
        (\<exists>a b. toFixed h 4 (Fin q) = a @ ascii ''.'' @ b \<and> length b = 4)) \<and>
   toFixed h 4 (Fin 0) = ascii ''0.0000'' \<and> emDash \<noteq> ascii ''0.0000''"
proof -
  have 1: "observable ''nt'' res = Some (Some (JNum (Fin 0))) \<longrightarrow>
      tensorIndexValue h res = Some emDash"
    by (simp add: tensorIndexValue_def)
  have 2: "observable ''nt'' res = Some None \<longrightarrow> tensorIndexValue h res = Some emDash"
    by (simp add: tensorIndexValue_def)
  have 3: "\<forall>x. observable ''nt'' res = Some (Some (JNum x)) \<and> x \<noteq> Fin 0 \<longrightarrow>
        tensorIndexValue h res = Some (toFixed h 4 x)"
  proof (intro allI impI)
    fix x assume a: "observable ''nt'' res = Some (Some (JNum x)) \<and> x \<noteq> Fin 0"
    then have "truthy (Some (JNum x))" by (cases x) auto
    with a show "tensorIndexValue h res = Some (toFixed h 4 x)"
      by (simp add: tensorIndexValue_def)
  qed
  have 4: "\<forall>q. q \<noteq> 0 \<and> \<bar>q\<bar> < 10 ^ 21 \<longrightarrow>
        (\<exists>a b. toFixed h 4 (Fin q) = a @ ascii ''.'' @ b \<and> length b = 4)"
    using toFixed_shape [of _ 4 h] by simp
  from 1 2 3 4 toFixed_zero emDash_not_zero show ?thesis by blast
qed

theorem tensorIndex_zero_is_placeholder_witness:
  "observable ''nt'' zeroTiltReply = Some (Some (JNum (Fin 0))) \<and>
   tensorIndexValue sampleHost zeroTiltReply = Some emDash \<and>
   observable ''nt'' sampleReply = Some None \<and>
   tensorIndexValue sampleHost sampleReply = Some emDash \<and>
   observable ''nt'' tiltedReply = Some (Some (JNum (Fin (- (1 / 8))))) \<and>
   tensorIndexValue sampleHost tiltedReply = Some (ascii ''-0.1250'')"
proof -
  have z: "observable ''nt'' zeroTiltReply = Some (Some (JNum (Fin 0)))"
    by (simp add: observable_def zeroTiltReply_def ascii_def)
  have t: "observable ''nt'' tiltedReply = Some (Some (JNum (Fin (- (1 / 8)))))"
    by (simp add: observable_def tiltedReply_def ascii_def)
  show ?thesis
    using z t observable_sample(3)
      tensorIndex_zero_is_placeholder [of zeroTiltReply sampleHost]
      tensorIndex_zero_is_placeholder [of sampleReply sampleHost]
      tensorIndex_zero_is_placeholder [of tiltedReply sampleHost]
    by (simp add: toFixed_sample_nt)
qed

end
